theory Spec2Isabelle
  imports Complex_Main "HOL-Library.Sublist"
begin

section \<open>The deuteron VQE example of the hybrid library\<close>

text \<open>
  The development embeds \<^verbatim>\<open>examples/hybrid/deuteron_h2_vqe.cpp\<close>: three quantum
  kernels and a straight-line \<^verbatim>\<open>main\<close> that builds a Hamiltonian, runs three
  variational eigensolver instances and checks the energies they return.

  A C++ \<^verbatim>\<open>double\<close> is modelled as a real number. The properties below are about
  which value each statement reads and in which order the statements run, not about
  rounding.
\<close>

type_synonym double = real

subsection \<open>Operators: \<^verbatim>\<open>X(i)\<close>, \<^verbatim>\<open>Y(i)\<close>, \<^verbatim>\<open>Z(i)\<close> and their arithmetic\<close>

text \<open>
  Modelled from the spec: the operator class behind \<^verbatim>\<open>X(i)\<close>, \<^verbatim>\<open>Y(i)\<close>,
  \<^verbatim>\<open>Z(i)\<close> and their arithmetic is declared in the library header, which is
  missing. The spec calls a Hamiltonian "a weighted sum of quantum-operator terms".
  Outside a gate call the source writes \<^verbatim>\<open>X(0) * Y(1) - Y(0) * X(1)\<close>: the terms
  are products of Pauli operators, each on the qubit with the given index, so an
  operator is a list of weighted Pauli strings. A string lists the non-identity factors
  in the order of their qubits, and the empty string is the identity.
\<close>

datatype pauli = Pauli_X | Pauli_Y | Pauli_Z

type_synonym pauli_string = "(nat \<times> pauli) list"

datatype operator = Sum (terms: "(complex \<times> pauli_string) list")

text \<open>
  The product of two Pauli matrices on one qubit: a phase, and the remaining factor
  (\<open>None\<close> for the identity).
\<close>

fun pauli_times :: "pauli \<Rightarrow> pauli \<Rightarrow> complex \<times> pauli option" where
  "pauli_times Pauli_X Pauli_X = (1, None)"
| "pauli_times Pauli_Y Pauli_Y = (1, None)"
| "pauli_times Pauli_Z Pauli_Z = (1, None)"
| "pauli_times Pauli_X Pauli_Y = (\<i>, Some Pauli_Z)"
| "pauli_times Pauli_Y Pauli_X = (- \<i>, Some Pauli_Z)"
| "pauli_times Pauli_Y Pauli_Z = (\<i>, Some Pauli_X)"
| "pauli_times Pauli_Z Pauli_Y = (- \<i>, Some Pauli_X)"
| "pauli_times Pauli_Z Pauli_X = (\<i>, Some Pauli_Y)"
| "pauli_times Pauli_X Pauli_Z = (- \<i>, Some Pauli_Y)"

text \<open>
  The product of two strings. Factors on different qubits commute, so the two strings
  are merged in the order of the qubits; factors on the same qubit are multiplied.
\<close>

fun string_times :: "pauli_string \<Rightarrow> pauli_string \<Rightarrow> complex \<times> pauli_string" where
  "string_times [] t = (1, t)"
| "string_times s [] = (1, s)"
| "string_times ((i, p) # s) ((j, q) # t) =
     (if i < j then
        (case string_times s ((j, q) # t) of (ph, r) \<Rightarrow> (ph, (i, p) # r))
      else if j < i then
        (case string_times ((i, p) # s) t of (ph, r) \<Rightarrow> (ph, (j, q) # r))
      else
        (case string_times s t of (ph, r) \<Rightarrow>
           (case pauli_times p q of
              (ph', None) \<Rightarrow> (ph' * ph, r)
            | (ph', Some pq) \<Rightarrow> (ph' * ph, (i, pq) # r))))"

definition term_times ::
  "complex \<times> pauli_string \<Rightarrow> complex \<times> pauli_string \<Rightarrow> complex \<times> pauli_string" where
  "term_times a b =
     (case string_times (snd a) (snd b) of (ph, r) \<Rightarrow> (fst a * fst b * ph, r))"

definition X :: "nat \<Rightarrow> operator" where
  "X i = Sum [(1, [(i, Pauli_X)])]"

definition Y :: "nat \<Rightarrow> operator" where
  "Y i = Sum [(1, [(i, Pauli_Y)])]"

definition Z :: "nat \<Rightarrow> operator" where
  "Z i = Sum [(1, [(i, Pauli_Z)])]"

text \<open>A \<^verbatim>\<open>double\<close> operand of the arithmetic is that multiple of the identity.\<close>

definition scalar :: "double \<Rightarrow> operator" where
  "scalar c = Sum [(complex_of_real c, [])]"

instantiation operator :: "{plus, minus, times}"
begin

definition plus_operator :: "operator \<Rightarrow> operator \<Rightarrow> operator" where
  "plus_operator a b = Sum (terms a @ terms b)"

definition minus_operator :: "operator \<Rightarrow> operator \<Rightarrow> operator" where
  "minus_operator a b = Sum (terms a @ map (\<lambda>t. (- fst t, snd t)) (terms b))"

definition times_operator :: "operator \<Rightarrow> operator \<Rightarrow> operator" where
  "times_operator a b =
     Sum (concat (map (\<lambda>s. map (\<lambda>t. term_times s t) (terms b)) (terms a)))"

instance ..

end

text \<open>The qubits an operator acts on.\<close>

definition qubits :: "operator \<Rightarrow> nat set" where
  "qubits A = (\<Union>t \<in> set (terms A). fst ` set (snd t))"

subsection \<open>The kernels\<close>

text \<open>
  A register is a named buffer of qubits; \<^verbatim>\<open>q[i]\<close> is its \<open>i\<close>-th qubit.
\<close>

datatype qreg = qreg string

type_synonym qubit = "qreg \<times> nat"

definition qubit_at :: "qreg \<Rightarrow> nat \<Rightarrow> qubit" where
  "qubit_at q i = (q, i)"

text \<open>
  A kernel body is a sequence of statements, each in the language that is in force where
  it stands: XASM writes a call \<^verbatim>\<open>NAME(arguments);\<close>, OpenQASM writes
  \<^verbatim>\<open>name qubit, ..., qubit;\<close>.
\<close>

datatype argument = Qubit qubit | Angle double | Register qreg | Exponent operator

datatype statement =
    Xasm string "argument list"
  | Openqasm string "qubit list"

text \<open>The instructions of a compiled circuit.\<close>

datatype instruction =
    Gate_X qubit
  | Gate_Ry qubit double
  | Gate_CNOT (control: qubit) (target: qubit)
  | Gate_Exp qreg double operator

text \<open>
  Modelled from the spec: the compiler that "recognizes specially annotated
  quantum-kernel functions and lowers them to circuit representations" is missing. Its
  gate tables are written out for the names the kernels use, with the meaning the two
  languages give them: the XASM instructions \<^verbatim>\<open>X\<close>, \<^verbatim>\<open>Ry\<close>,
  \<^verbatim>\<open>CX\<close> (control first) and \<^verbatim>\<open>exp_i_theta\<close>, and the OpenQASM gates
  \<^verbatim>\<open>x\<close> and \<^verbatim>\<open>cx\<close> (control first). Any other statement is not compiled.
\<close>

definition xasm_gate :: "string \<Rightarrow> argument list \<Rightarrow> instruction option" where
  "xasm_gate name args =
     (case args of
        [Qubit a] \<Rightarrow> if name = ''X'' then Some (Gate_X a) else None
      | [Qubit a, Angle t] \<Rightarrow> if name = ''Ry'' then Some (Gate_Ry a t) else None
      | [Qubit a, Qubit b] \<Rightarrow> if name = ''CX'' then Some (Gate_CNOT a b) else None
      | [Register q, Angle t, Exponent A] \<Rightarrow>
          if name = ''exp_i_theta'' then Some (Gate_Exp q t A) else None
      | _ \<Rightarrow> None)"

definition openqasm_gate :: "string \<Rightarrow> qubit list \<Rightarrow> instruction option" where
  "openqasm_gate name args =
     (case args of
        [a] \<Rightarrow> if name = ''x'' then Some (Gate_X a) else None
      | [a, b] \<Rightarrow> if name = ''cx'' then Some (Gate_CNOT a b) else None
      | _ \<Rightarrow> None)"

fun lower :: "statement \<Rightarrow> instruction option" where
  "lower (Xasm name args) = xasm_gate name args"
| "lower (Openqasm name args) = openqasm_gate name args"

text \<open>The circuit of a kernel body: every statement lowered, or no circuit at all.\<close>

fun circuit :: "statement list \<Rightarrow> instruction list option" where
  "circuit [] = Some []"
| "circuit (s # ss) =
     (case lower s of
        None \<Rightarrow> None
      | Some g \<Rightarrow> (case circuit ss of None \<Rightarrow> None | Some gs \<Rightarrow> Some (g # gs)))"

text \<open>
  \<^verbatim>\<open>
  __qpu__ void ansatz(qreg q, double x) {
    X(q[0]);
    Ry(q[1], x);
    CX(q[1], q[0]);
  }
  \<close>
\<close>

definition ansatz :: "qreg \<Rightarrow> double \<Rightarrow> statement list" where
  "ansatz q x =
     [Xasm ''X'' [Qubit (qubit_at q 0)],
      Xasm ''Ry'' [Qubit (qubit_at q 1), Angle x],
      Xasm ''CX'' [Qubit (qubit_at q 1), Qubit (qubit_at q 0)]]"

text \<open>
  An unchecked read \<^verbatim>\<open>v[i]\<close> of a \<^verbatim>\<open>std::vector\<close>: outside the vector the
  behaviour is undefined, which the model reports as a fault of its own.
\<close>

datatype stop = Aborted | Out_of_range

definition index :: "'a list \<Rightarrow> nat \<Rightarrow> stop + 'a" where
  "index v i = (if i < length v then Inr (v ! i) else Inl Out_of_range)"

text \<open>
  \<^verbatim>\<open>
  __qpu__ void ansatz_vec(qreg q, std::vector<double> x) {
    X(q[0]);
    auto ansatz_exponent = X(0) * Y(1) - Y(0) * X(1);
    exp_i_theta(q, x[0], ansatz_exponent);
  }
  \<close>
\<close>

definition ansatz_vec :: "qreg \<Rightarrow> double list \<Rightarrow> stop + statement list" where
  "ansatz_vec q x =
     (let ansatz_exponent = X 0 * Y 1 - Y 0 * X 1 in
      case index x 0 of
        Inl fault \<Rightarrow> Inl fault
      | Inr x0 \<Rightarrow>
          Inr [Xasm ''X'' [Qubit (qubit_at q 0)],
               Xasm ''exp_i_theta'' [Register q, Angle x0, Exponent ansatz_exponent]])"

text \<open>
  \<^verbatim>\<open>
  __qpu__ void xasm_open_qasm_mixed_ansatz(qreg q, double xx) {
    using qcor::openqasm;
    x q[0];
    using qcor::xasm;
    Ry(q[1], xx);
    using qcor::openqasm;
    cx q[1], q[0];
  }
  \<close>
\<close>

definition xasm_open_qasm_mixed_ansatz :: "qreg \<Rightarrow> double \<Rightarrow> statement list" where
  "xasm_open_qasm_mixed_ansatz q xx =
     [Openqasm ''x'' [qubit_at q 0],
      Xasm ''Ry'' [Qubit (qubit_at q 1), Angle xx],
      Openqasm ''cx'' [qubit_at q 1, qubit_at q 0]]"

subsection \<open>The library: optimizers and the eigensolver\<close>

text \<open>
  The example includes \<^verbatim>\<open>qcor_hybrid.hpp\<close> and calls into it; the header is not
  part of the example. What \<^verbatim>\<open>main\<close> passes to the library is read off its
  call sites; what the library computes is a parameter of the model.
\<close>

text \<open>A configuration option's value: a string or an integer.\<close>

datatype setting = Str string | Integer int

type_synonym option_list = "(string \<times> setting) list"

datatype optimizer = Optimizer string option_list

text \<open>The value an optimizer has for an option, if the option was set.\<close>

fun setting_of :: "optimizer \<Rightarrow> string \<Rightarrow> setting option" where
  "setting_of (Optimizer name opts) key = map_of opts key"

text \<open>
  The ansatz given to the solver is one of the kernels: a function of a register and
  either a \<^verbatim>\<open>double\<close> or a \<^verbatim>\<open>std::vector<double>\<close>.
\<close>

datatype kernel =
    Kernel_double "qreg \<Rightarrow> double \<Rightarrow> statement list"
  | Kernel_vector "qreg \<Rightarrow> double list \<Rightarrow> stop + statement list"

text \<open>The initial parameters as \<^verbatim>\<open>execute\<close> receives them.\<close>

datatype parameters = Double double | Vector "double list"

text \<open>
  A solver object holds what its constructor was given: the ansatz, the observable and
  the options.

  Modelled from the spec: the accessors of the \<^verbatim>\<open>VQE\<close> class, whose code is
  missing, return "the set of unique parameter vectors and corresponding energies
  observed during optimization". The object therefore also holds the observations of
  its optimization, each an energy with the parameter vector it was measured at, in
  the order they were made.
\<close>

record VQE =
  kernel :: kernel
  observable :: operator
  options :: option_list
  observed :: "(double \<times> double list) list"

definition new_VQE :: "kernel \<Rightarrow> operator \<Rightarrow> option_list \<Rightarrow> VQE" where
  "new_VQE k A opts = \<lparr>kernel = k, observable = A, options = opts, observed = []\<rparr>"

text \<open>
  The optimization itself (the optimizer's loop over the backend's energy estimates) is
  the parameter: for a solver object, an optional explicit optimizer and the initial
  parameters, it gives the pair \<^verbatim>\<open>(energy, parameters)\<close> that
  \<^verbatim>\<open>execute\<close> returns and the observations made on the way. \<^verbatim>\<open>main\<close>
  runs every solver object once, so a function of the call's arguments describes any
  run in which every call of the library returns, also one on a noisy backend.
\<close>

type_synonym optimization =
  "VQE \<Rightarrow> optimizer option \<Rightarrow> parameters \<Rightarrow> (double \<times> double list) \<times> (double \<times> double list) list"

text \<open>
  Modelled from the spec: \<^verbatim>\<open>get_unique_parameters\<close> and
  \<^verbatim>\<open>get_unique_energies\<close> of the \<^verbatim>\<open>VQE\<close> class, whose code is missing.
  The first returns each observed parameter vector once. The second returns each
  observed pair once, the energy first and the parameter vector second, as the loop at
  the end of \<^verbatim>\<open>main\<close> reads them.
\<close>

definition get_unique_parameters :: "VQE \<Rightarrow> double list list" where
  "get_unique_parameters v = remdups (map snd (observed v))"

definition get_unique_energies :: "VQE \<Rightarrow> (double \<times> double list) list" where
  "get_unique_energies v = remdups (observed v)"

subsection \<open>Running \<^verbatim>\<open>main\<close>\<close>

text \<open>
  A run of \<^verbatim>\<open>main\<close> is the sequence of its steps: the declarations and the
  executions of solver objects, the creation of the optimizer, the lines written to
  \<^verbatim>\<open>std::cout\<close> and the checks. The two accessor calls at the end only read the
  solver object and leave no step of their own. \<open>Execute_async\<close> stands for the
  asynchronous interface of the solver that a comment of \<^verbatim>\<open>main\<close> names; no
  statement of \<^verbatim>\<open>main\<close> produces it.
\<close>

datatype item = Text string | Num double | Endl

datatype event =
    Construct VQE
  | Execute VQE "optimizer option" parameters
  | Execute_async VQE "optimizer option" parameters
  | Create_optimizer string option_list
  | Cout "item list"
  | Expect bool

text \<open>
  A statement extends the run so far and either gives a result or stops the program:
  \<open>Aborted\<close> when a check fails, \<open>Out_of_range\<close> when a vector is read outside
  its bounds.
\<close>

type_synonym 'a prog = "event list \<Rightarrow> (stop + 'a) \<times> event list"

definition return :: "'a \<Rightarrow> 'a prog" where
  "return a t = (Inr a, t)"

definition halt :: "stop \<Rightarrow> 'a prog" where
  "halt s t = (Inl s, t)"

definition bind :: "'a prog \<Rightarrow> ('a \<Rightarrow> 'b prog) \<Rightarrow> 'b prog" where
  "bind m k t = (case m t of (Inl s, t') \<Rightarrow> (Inl s, t') | (Inr a, t') \<Rightarrow> k a t')"

definition emit :: "event \<Rightarrow> unit prog" where
  "emit e t = (Inr (), t @ [e])"

text \<open>A range-based \<^verbatim>\<open>for\<close> loop over a container.\<close>

fun for_each :: "'a list \<Rightarrow> ('a \<Rightarrow> unit prog) \<Rightarrow> unit prog" where
  "for_each [] body = return ()"
| "for_each (a # as) body = bind (body a) (\<lambda>_. for_each as body)"

definition cout :: "item list \<Rightarrow> unit prog" where
  "cout line = emit (Cout line)"

text \<open>\<^verbatim>\<open>v[i]\<close> in \<^verbatim>\<open>main\<close>.\<close>

definition subscript :: "'a list \<Rightarrow> nat \<Rightarrow> 'a prog" where
  "subscript v i = (case index v i of Inl fault \<Rightarrow> halt fault | Inr a \<Rightarrow> return a)"

text \<open>
  Modelled from the spec: the macro \<^verbatim>\<open>qcor_expect\<close>, whose definition is missing,
  is "a runtime check that aborts the process" when its condition is false.
\<close>

definition qcor_expect :: "bool \<Rightarrow> unit prog" where
  "qcor_expect condition =
     bind (emit (Expect condition)) (\<lambda>_. if condition then return () else halt Aborted)"

text \<open>\<^verbatim>\<open>VQE v(kernel, H, options)\<close>: the declaration of a solver object.\<close>

definition declare_VQE :: "kernel \<Rightarrow> operator \<Rightarrow> option_list \<Rightarrow> VQE prog" where
  "declare_VQE k A opts = bind (emit (Construct (new_VQE k A opts))) (\<lambda>_. return (new_VQE k A opts))"

text \<open>
  Modelled from the spec: \<^verbatim>\<open>VQE::execute\<close>, whose code is missing, is "a
  synchronous \<^verbatim>\<open>execute(initial parameters)\<close> returning
  \<^verbatim>\<open>(energy, parameters)\<close>", with "an optional overload accepting an explicit
  optimizer configuration". Both \<^verbatim>\<open>v.execute(x)\<close> and
  \<^verbatim>\<open>v.execute(optimizer, x)\<close> return the pair of the optimization, and the
  object keeps the observations.
\<close>

definition execute ::
  "optimization \<Rightarrow> VQE \<Rightarrow> optimizer option \<Rightarrow> parameters \<Rightarrow> ((double \<times> double list) \<times> VQE) prog" where
  "execute run v opt x0 =
     bind (emit (Execute v opt x0))
       (\<lambda>_. case run v opt x0 of (result, seen) \<Rightarrow> return (result, v\<lparr>observed := seen\<rparr>))"

text \<open>
  Modelled from the spec: \<^verbatim>\<open>createOptimizer\<close>, whose code is missing, is "a
  factory for named optimizers with string/value configuration options (e.g.,
  optimizer algorithm, maximum evaluations, gradient-estimation strategy)". The
  optimizer it returns is the name with the options it was given, whichever they are.
\<close>

definition createOptimizer :: "string \<Rightarrow> option_list \<Rightarrow> optimizer prog" where
  "createOptimizer name opts =
     bind (emit (Create_optimizer name opts)) (\<lambda>_. return (Optimizer name opts))"

text \<open>
  \<^verbatim>\<open>
  auto H = 5.907 - 2.1433 * X(0) * X(1) -
           2.1433 * Y(0) * Y(1) + .21829 * Z(0) -
           6.125 * Z(1);
  \<close>
\<close>

definition H :: operator where
  "H = scalar 5.907 - scalar 2.1433 * X 0 * X 1 -
       scalar 2.1433 * Y 0 * Y 1 + scalar 0.21829 * Z 0 -
       scalar 6.125 * Z 1"

text \<open>
  The line that \<^verbatim>\<open>main\<close> writes after each call of \<^verbatim>\<open>execute\<close>:
  \<^verbatim>\<open>std::cout << "<H>(" << params[0] << ") = " << energy << "\n";\<close>
\<close>

definition print_energy :: "double list \<Rightarrow> double \<Rightarrow> unit prog" where
  "print_energy params energy =
     bind (subscript params 0) (\<lambda>p0.
       cout [Text ''<H>('', Num p0, Text '') = '', Num energy, Text ''\<newline>''])"

text \<open>
  The body of \<^verbatim>\<open>main\<close>, statement by statement. The third check reads
  \<^verbatim>\<open>energy_vec\<close>, as line 79 of the source does.
\<close>

definition main_body :: "optimization \<Rightarrow> unit prog" where
  "main_body run =
     bind (declare_VQE (Kernel_double ansatz) H []) (\<lambda>vqe.
     bind (execute run vqe None (Double 0.0)) (\<lambda>((energy, params), vqe).
     bind (print_energy params energy) (\<lambda>_.
     bind (qcor_expect (\<bar>energy + 1.74886\<bar> < 0.1)) (\<lambda>_.
     bind (declare_VQE (Kernel_vector ansatz_vec) H []) (\<lambda>vqe_vec.
     bind (execute run vqe_vec None (Vector [0.0])) (\<lambda>((energy_vec, params_vec), vqe_vec).
     bind (print_energy params_vec energy_vec) (\<lambda>_.
     bind (qcor_expect (\<bar>energy_vec + 1.74886\<bar> < 0.1)) (\<lambda>_.
     bind (createOptimizer ''nlopt''
             [(''nlopt-optimizer'', Str ''l-bfgs''), (''nlopt-maxeval'', Integer 20)]) (\<lambda>optimizer.
     bind (declare_VQE (Kernel_double xasm_open_qasm_mixed_ansatz) H
             [(''gradient-strategy'', Str ''central'')]) (\<lambda>vqe_openqasm.
     bind (execute run vqe_openqasm (Some optimizer) (Double 0.55))
       (\<lambda>((energy_oq, params_oq), vqe_openqasm).
     bind (print_energy params_oq energy_oq) (\<lambda>_.
     bind (qcor_expect (\<bar>energy_vec + 1.74886\<bar> < 0.1)) (\<lambda>_.
     let all_params = get_unique_parameters vqe_openqasm;
         all_energies_and_params = get_unique_energies vqe_openqasm
     in
     bind (cout [Text ''All Energies and Parameters:\<newline>'']) (\<lambda>_.
     for_each all_energies_and_params (\<lambda>energy_param.
       let energy = fst energy_param;
           pset = snd energy_param
       in
       bind (cout [Text ''E: Pvec = '', Num energy, Text '': [ '']) (\<lambda>_.
       bind (for_each pset (\<lambda>p. cout [Num p, Text '' ''])) (\<lambda>_.
       cout [Text '']'', Endl])))))))))))))))))"

definition main :: "optimization \<Rightarrow> (stop + unit) \<times> event list" where
  "main run = main_body run []"

subsection \<open>Names for what a run of \<^verbatim>\<open>main\<close> declares and binds\<close>

text \<open>The three solver objects and the optimizer, as \<^verbatim>\<open>main\<close> declares them.\<close>

definition vqe :: VQE where
  "vqe = new_VQE (Kernel_double ansatz) H []"

definition vqe_vec :: VQE where
  "vqe_vec = new_VQE (Kernel_vector ansatz_vec) H []"

definition optimizer :: optimizer where
  "optimizer =
     Optimizer ''nlopt'' [(''nlopt-optimizer'', Str ''l-bfgs''), (''nlopt-maxeval'', Integer 20)]"

definition vqe_openqasm :: VQE where
  "vqe_openqasm =
     new_VQE (Kernel_double xasm_open_qasm_mixed_ansatz) H [(''gradient-strategy'', Str ''central'')]"

text \<open>
  What the structured bindings of \<^verbatim>\<open>main\<close> receive from the three calls of
  \<^verbatim>\<open>execute\<close>, and the observations the third solver object keeps.
\<close>

definition energy :: "optimization \<Rightarrow> double" where
  "energy run = fst (fst (run vqe None (Double 0.0)))"

definition params :: "optimization \<Rightarrow> double list" where
  "params run = snd (fst (run vqe None (Double 0.0)))"

definition energy_vec :: "optimization \<Rightarrow> double" where
  "energy_vec run = fst (fst (run vqe_vec None (Vector [0.0])))"

definition params_vec :: "optimization \<Rightarrow> double list" where
  "params_vec run = snd (fst (run vqe_vec None (Vector [0.0])))"

definition energy_oq :: "optimization \<Rightarrow> double" where
  "energy_oq run = fst (fst (run vqe_openqasm (Some optimizer) (Double 0.55)))"

definition params_oq :: "optimization \<Rightarrow> double list" where
  "params_oq run = snd (fst (run vqe_openqasm (Some optimizer) (Double 0.55)))"

definition seen_oq :: "optimization \<Rightarrow> (double \<times> double list) list" where
  "seen_oq run = snd (run vqe_openqasm (Some optimizer) (Double 0.55))"

text \<open>The tolerance that the checks of \<^verbatim>\<open>main\<close> test.\<close>

definition in_tolerance :: "double \<Rightarrow> bool" where
  "in_tolerance e = (\<bar>e + 1.74886\<bar> < 0.1)"

text \<open>The line written after a call of \<^verbatim>\<open>execute\<close>, and the listing of the final loop.\<close>

definition energy_line :: "double list \<Rightarrow> double \<Rightarrow> event" where
  "energy_line ps e =
     Cout [Text ''<H>('', Num (ps ! 0), Text '') = '', Num e, Text ''\<newline>'']"

definition listing :: "(double \<times> double list) list \<Rightarrow> event list" where
  "listing eps =
     concat (map (\<lambda>ep. Cout [Text ''E: Pvec = '', Num (fst ep), Text '': [ '']
                        # map (\<lambda>p. Cout [Num p, Text '' '']) (snd ep)
                        @ [Cout [Text '']'', Endl]]) eps)"

text \<open>Reading a run: its checks, its solver runs, its output, its declarations.\<close>

fun is_expect :: "event \<Rightarrow> bool" where
  "is_expect (Expect c) = True"
| "is_expect _ = False"

fun is_execute :: "event \<Rightarrow> bool" where
  "is_execute (Execute v opt x0) = True"
| "is_execute _ = False"

fun is_asynchronous :: "event \<Rightarrow> bool" where
  "is_asynchronous (Execute_async v opt x0) = True"
| "is_asynchronous _ = False"

fun is_output :: "event \<Rightarrow> bool" where
  "is_output (Cout line) = True"
| "is_output _ = False"

fun constructed :: "event list \<Rightarrow> VQE list" where
  "constructed [] = []"
| "constructed (Construct v # t) = v # constructed t"
| "constructed (e # t) = constructed t"

fun created :: "event list \<Rightarrow> (string \<times> option_list) list" where
  "created [] = []"
| "created (Create_optimizer name opts # t) = (name, opts) # created t"
| "created (e # t) = created t"

subsection \<open>Three optimizations to run \<^verbatim>\<open>main\<close> on\<close>

text \<open>
  With the ansatz of the example the energy is \<open>-0.43629\<close> at the angle \<open>0\<close> and
  close to \<open>-1.74886\<close> at the minimum. In \<open>converged\<close> every solver finds the
  minimum. In \<open>third_off\<close> the first two do, and the one with the explicit
  optimizer returns \<open>-1.5\<close>, as it may on a noisy backend within its twenty
  evaluations. In \<open>stuck\<close> no solver leaves the angle \<open>0\<close>.
\<close>

definition converged :: optimization where
  "converged v opt x0 =
     ((-1.74886, [0.594]), [(-0.43629, [0]), (-1.74886, [0.594]), (-0.43629, [0])])"

definition third_off :: optimization where
  "third_off v opt x0 =
     (case opt of
        None \<Rightarrow> ((-1.74886, [0.594]), [(-0.43629, [0]), (-1.74886, [0.594])])
      | Some _ \<Rightarrow> ((-1.5, [0.4]), [(-1.2, [0.55]), (-1.5, [0.4])]))"

definition stuck :: optimization where
  "stuck v opt x0 = ((-0.43629, [0]), [(-0.43629, [0])])"

section \<open>Properties\<close>

subsection \<open>The runs of \<^verbatim>\<open>main\<close>\<close>

lemma cout_run: "cout line t = (Inr (), t @ [Cout line])"
  by (simp add: cout_def emit_def)

lemma inner_loop:
  "for_each pset (\<lambda>p. cout [Num p, Text '' '']) t
     = (Inr (), t @ map (\<lambda>p. Cout [Num p, Text '' '']) pset)"
  by (induction pset arbitrary: t) (simp_all add: return_def bind_def cout_run)

lemma outer_loop:
  "for_each eps (\<lambda>energy_param.
       bind (cout [Text ''E: Pvec = '', Num (fst energy_param), Text '': [ '']) (\<lambda>_.
       bind (for_each (snd energy_param) (\<lambda>p. cout [Num p, Text '' ''])) (\<lambda>_.
       cout [Text '']'', Endl]))) t
   = (Inr (), t @ listing eps)"
  by (induction eps arbitrary: t)
     (simp_all add: return_def bind_def cout_run listing_def inner_loop)

lemmas statement_defs = bind_def return_def halt_def emit_def cout_run
  subscript_def index_def qcor_expect_def declare_VQE_def execute_def createOptimizer_def
  print_energy_def get_unique_energies_def get_unique_parameters_def

lemmas binding_defs = vqe_def vqe_vec_def vqe_openqasm_def optimizer_def
  energy_def params_def energy_vec_def params_vec_def energy_oq_def params_oq_def seen_oq_def

text \<open>
  Every run of \<^verbatim>\<open>main\<close> is one of six: it reads an empty parameter vector after
  the first, second or third call, or the first or the second check fails, or it
  finishes. The third check repeats the condition of the second and so never fails.
\<close>

lemma main_run:
  "main run =
    (if params run = [] then
       (Inl Out_of_range, [Construct vqe, Execute vqe None (Double 0)])
     else if \<not> in_tolerance (energy run) then
       (Inl Aborted,
        [Construct vqe, Execute vqe None (Double 0),
         energy_line (params run) (energy run), Expect False])
     else if params_vec run = [] then
       (Inl Out_of_range,
        [Construct vqe, Execute vqe None (Double 0),
         energy_line (params run) (energy run), Expect True,
         Construct vqe_vec, Execute vqe_vec None (Vector [0])])
     else if \<not> in_tolerance (energy_vec run) then
       (Inl Aborted,
        [Construct vqe, Execute vqe None (Double 0),
         energy_line (params run) (energy run), Expect True,
         Construct vqe_vec, Execute vqe_vec None (Vector [0]),
         energy_line (params_vec run) (energy_vec run), Expect False])
     else if params_oq run = [] then
       (Inl Out_of_range,
        [Construct vqe, Execute vqe None (Double 0),
         energy_line (params run) (energy run), Expect True,
         Construct vqe_vec, Execute vqe_vec None (Vector [0]),
         energy_line (params_vec run) (energy_vec run), Expect True,
         Create_optimizer ''nlopt''
           [(''nlopt-optimizer'', Str ''l-bfgs''), (''nlopt-maxeval'', Integer 20)],
         Construct vqe_openqasm, Execute vqe_openqasm (Some optimizer) (Double 0.55)])
     else
       (Inr (),
        [Construct vqe, Execute vqe None (Double 0),
         energy_line (params run) (energy run), Expect True,
         Construct vqe_vec, Execute vqe_vec None (Vector [0]),
         energy_line (params_vec run) (energy_vec run), Expect True,
         Create_optimizer ''nlopt''
           [(''nlopt-optimizer'', Str ''l-bfgs''), (''nlopt-maxeval'', Integer 20)],
         Construct vqe_openqasm, Execute vqe_openqasm (Some optimizer) (Double 0.55),
         energy_line (params_oq run) (energy_oq run), Expect True,
         Cout [Text ''All Energies and Parameters:\<newline>'']]
        @ listing (remdups (seen_oq run))))"
  unfolding main_def main_body_def
  by (simp add: statement_defs binding_defs outer_loop Let_def case_prod_beta
        energy_line_def in_tolerance_def)

text \<open>The final loop only writes lines.\<close>

lemma listing_couts: "e \<in> set (listing eps) \<Longrightarrow> \<exists>line. e = Cout line"
  by (auto simp: listing_def)

lemma filter_expect_listing: "filter is_expect (listing eps) = []"
  by (induction eps) (simp_all add: listing_def filter_empty_conv image_iff)

lemma filter_execute_listing: "filter is_execute (listing eps) = []"
  by (induction eps) (simp_all add: listing_def filter_empty_conv image_iff)

lemma steps_listing: "filter (\<lambda>e. \<not> is_output e) (listing eps) = []"
  by (auto simp: filter_empty_conv dest: listing_couts)

lemma asynchronous_listing: "e \<in> set (listing eps) \<Longrightarrow> \<not> is_asynchronous e"
  by (auto dest: listing_couts)

lemma constructed_append: "constructed (t @ u) = constructed t @ constructed u"
  by (induction t rule: constructed.induct) simp_all

lemma created_append: "created (t @ u) = created t @ created u"
  by (induction t rule: created.induct) simp_all

lemma constructed_couts: "\<forall>e \<in> set t. \<exists>line. e = Cout line \<Longrightarrow> constructed t = []"
  by (induction t) auto

lemma created_couts: "\<forall>e \<in> set t. \<exists>line. e = Cout line \<Longrightarrow> created t = []"
  by (induction t) auto

lemma constructed_listing: "constructed (listing eps) = []"
  by (rule constructed_couts) (blast dest: listing_couts)

lemma created_listing: "created (listing eps) = []"
  by (rule created_couts) (blast dest: listing_couts)

text \<open>What the three calls return in the run \<open>converged\<close>.\<close>

lemma converged_bindings:
  "params converged = [0.594]" "energy converged = -1.74886"
  "params_vec converged = [0.594]" "energy_vec converged = -1.74886"
  "params_oq converged = [0.594]" "energy_oq converged = -1.74886"
  by (simp_all add: binding_defs converged_def)

lemma converged_finishes: "fst (main converged) = Inr ()"
  by (simp add: main_run converged_bindings in_tolerance_def)

subsection \<open>The energies that are checked\<close>

text \<open>
  Claim C1 says that in every run that terminates normally all three returned energies
  are within \<open>0.1\<close> of \<open>-1.74886\<close>, the third because a check constrains it. The
  third check of \<^verbatim>\<open>main\<close> tests \<^verbatim>\<open>energy_vec\<close> again and not
  \<^verbatim>\<open>energy_oq\<close>: in the run \<open>third_off\<close> the program terminates normally
  although the third solver returned \<open>-1.5\<close>, which is outside the tolerance.
\<close>

theorem third_energy_unchecked:
  "fst (main third_off) = Inr ()
   \<and> energy_oq third_off = -1.5
   \<and> \<not> \<bar>energy_oq third_off + 1.74886\<bar> < 0.1"
  by (simp add: main_run params_def energy_def params_vec_def energy_vec_def params_oq_def
        energy_oq_def in_tolerance_def third_off_def optimizer_def)

subsection \<open>What a failed check stops\<close>

text \<open>
  Claim C2: a check whose condition is false aborts the program at that point, so that
  no later statement runs, and a check whose condition is true changes nothing. A run
  that is aborted ends with the failed check. Hence the second call of
  \<^verbatim>\<open>execute\<close> is made only if the first energy was within the tolerance, and
  the third only if the first two were.
\<close>

theorem expect_gates_execution:
  "(\<forall>k t. bind (qcor_expect False) k t = (Inl Aborted, t @ [Expect False]))
   \<and> (\<forall>k t. bind (qcor_expect True) k t = k () (t @ [Expect True]))
   \<and> (fst (main run) = Inl Aborted \<longrightarrow> last (snd (main run)) = Expect False)
   \<and> (Execute vqe_vec None (Vector [0.0]) \<in> set (snd (main run))
        \<longrightarrow> in_tolerance (energy run))
   \<and> (Execute vqe_openqasm (Some optimizer) (Double 0.55) \<in> set (snd (main run))
        \<longrightarrow> in_tolerance (energy run) \<and> in_tolerance (energy_vec run))"
proof (intro conjI allI impI)
  fix k :: "unit \<Rightarrow> 'a prog" and t
  show "bind (qcor_expect False) k t = (Inl Aborted, t @ [Expect False])"
    by (simp add: qcor_expect_def bind_def emit_def halt_def)
next
  fix k :: "unit \<Rightarrow> 'b prog" and t
  show "bind (qcor_expect True) k t = k () (t @ [Expect True])"
    by (simp add: qcor_expect_def bind_def emit_def return_def)
next
  assume "fst (main run) = Inl Aborted"
  then show "last (snd (main run)) = Expect False"
    by (simp add: main_run split: if_splits)
next
  assume "Execute vqe_vec None (Vector [0.0]) \<in> set (snd (main run))"
  then show "in_tolerance (energy run)"
    by (simp add: main_run energy_line_def split: if_splits)
next
  assume third: "Execute vqe_openqasm (Some optimizer) (Double 0.55) \<in> set (snd (main run))"
  then show "in_tolerance (energy run)"
    by (simp add: main_run energy_line_def split: if_splits)
  from third show "in_tolerance (energy_vec run)"
    by (simp add: main_run energy_line_def split: if_splits)
qed

theorem expect_gates_execution_witness:
  "Execute vqe_vec None (Vector [0.0]) \<in> set (snd (main converged))
   \<and> Execute vqe_openqasm (Some optimizer) (Double 0.55) \<in> set (snd (main converged))
   \<and> in_tolerance (energy converged) \<and> in_tolerance (energy_vec converged)
   \<and> fst (main stuck) = Inl Aborted \<and> last (snd (main stuck)) = Expect False"
proof -
  have second: "Execute vqe_vec None (Vector [0.0]) \<in> set (snd (main converged))"
    by (simp add: main_run converged_bindings in_tolerance_def)
  have third: "Execute vqe_openqasm (Some optimizer) (Double 0.55) \<in> set (snd (main converged))"
    by (simp add: main_run converged_bindings in_tolerance_def)
  have aborted: "fst (main stuck) = Inl Aborted"
    by (simp add: main_run params_def energy_def stuck_def in_tolerance_def)
  from second third aborted expect_gates_execution [of converged] expect_gates_execution [of stuck]
  show ?thesis by blast
qed

subsection \<open>How many checks a run evaluates\<close>

text \<open>
  Claim C3 says that a run that terminates normally evaluates exactly one check. The
  run \<open>converged\<close> terminates normally and evaluates three.
\<close>

theorem three_checks_evaluated:
  "fst (main converged) = Inr ()
   \<and> length (filter is_expect (snd (main converged))) = 3
   \<and> length (filter is_expect (snd (main converged))) \<noteq> 1"
  by (simp add: main_run converged_bindings in_tolerance_def filter_expect_listing
        energy_line_def)

text \<open>
  Claim C3, amended: a run that terminates normally evaluates exactly three checks, all
  of them true. Apart from the lines it writes, such a run consists of the declaration
  and the one execution of each of the three solvers, each execution followed by its
  check, and the creation of the optimizer: nothing is run a second time and nothing
  else handles an error.
\<close>

theorem checks_of_a_finished_run:
  assumes "fst (main run) = Inr ()"
  shows "filter (\<lambda>e. \<not> is_output e) (snd (main run))
           = [Construct vqe, Execute vqe None (Double 0.0), Expect True,
              Construct vqe_vec, Execute vqe_vec None (Vector [0.0]), Expect True,
              Create_optimizer ''nlopt''
                [(''nlopt-optimizer'', Str ''l-bfgs''), (''nlopt-maxeval'', Integer 20)],
              Construct vqe_openqasm, Execute vqe_openqasm (Some optimizer) (Double 0.55),
              Expect True]
         \<and> length (filter is_expect (snd (main run))) = 3"
  using assms
  by (simp add: main_run filter_expect_listing steps_listing energy_line_def
        split: if_splits)

theorem checks_of_a_finished_run_witness:
  "fst (main converged) = Inr ()
   \<and> length (filter is_expect (snd (main converged))) = 3"
  using checks_of_a_finished_run [OF converged_finishes] converged_finishes
  by (simp only: simp_thms)

subsection \<open>The optimizer factory\<close>

text \<open>
  Claim C6: \<^verbatim>\<open>createOptimizer\<close> builds a named optimizer from a name and a
  list of option pairs; \<^verbatim>\<open>main\<close> calls it with \<^verbatim>\<open>"nlopt"\<close>,
  \<^verbatim>\<open>nlopt-optimizer = "l-bfgs"\<close> and \<^verbatim>\<open>nlopt-maxeval = 20\<close>; and the
  gradient strategy is among the options that can be set through the factory: given
  the option \<^verbatim>\<open>gradient-strategy\<close> with any value, the factory builds an
  optimizer that has this value for it.
\<close>

theorem optimizer_factory_options:
  "createOptimizer name opts t = (Inr (Optimizer name opts), t @ [Create_optimizer name opts])
   \<and> (\<forall>c \<in> set (created (snd (main run))).
         c = (''nlopt'', [(''nlopt-optimizer'', Str ''l-bfgs''), (''nlopt-maxeval'', Integer 20)]))
   \<and> (fst (main run) = Inr () \<longrightarrow>
         created (snd (main run))
           = [(''nlopt'', [(''nlopt-optimizer'', Str ''l-bfgs''), (''nlopt-maxeval'', Integer 20)])])
   \<and> setting_of optimizer ''nlopt-optimizer'' = Some (Str ''l-bfgs'')
   \<and> setting_of optimizer ''nlopt-maxeval'' = Some (Integer 20)
   \<and> (\<forall>s. \<exists>built. fst (createOptimizer name ((''gradient-strategy'', s) # opts) t) = Inr built
          \<and> setting_of built ''gradient-strategy'' = Some s)"
proof (intro conjI impI allI)
  show "createOptimizer name opts t = (Inr (Optimizer name opts), t @ [Create_optimizer name opts])"
    by (simp add: createOptimizer_def bind_def emit_def return_def)
  show "\<forall>c \<in> set (created (snd (main run))).
          c = (''nlopt'', [(''nlopt-optimizer'', Str ''l-bfgs''), (''nlopt-maxeval'', Integer 20)])"
    by (simp add: main_run energy_line_def created_append created_listing)
  show "setting_of optimizer ''nlopt-optimizer'' = Some (Str ''l-bfgs'')"
    and "setting_of optimizer ''nlopt-maxeval'' = Some (Integer 20)"
    by (simp_all add: optimizer_def)
next
  assume "fst (main run) = Inr ()"
  then show "created (snd (main run))
           = [(''nlopt'', [(''nlopt-optimizer'', Str ''l-bfgs''), (''nlopt-maxeval'', Integer 20)])]"
    by (simp add: main_run energy_line_def created_append created_listing split: if_splits)
next
  fix s
  have "fst (createOptimizer name ((''gradient-strategy'', s) # opts) t)
          = Inr (Optimizer name ((''gradient-strategy'', s) # opts))"
    by (simp add: createOptimizer_def bind_def emit_def return_def)
  moreover have "setting_of (Optimizer name ((''gradient-strategy'', s) # opts))
                   ''gradient-strategy'' = Some s"
    by simp
  ultimately show "\<exists>built. fst (createOptimizer name ((''gradient-strategy'', s) # opts) t) = Inr built
          \<and> setting_of built ''gradient-strategy'' = Some s"
    by blast
qed

theorem optimizer_factory_options_witness:
  "fst (main converged) = Inr ()
   \<and> (''nlopt'', [(''nlopt-optimizer'', Str ''l-bfgs''), (''nlopt-maxeval'', Integer 20)])
       \<in> set (created (snd (main converged)))
   \<and> (\<exists>built. fst (createOptimizer ''nlopt''
                      [(''gradient-strategy'', Str ''central''),
                       (''nlopt-optimizer'', Str ''l-bfgs''), (''nlopt-maxeval'', Integer 20)] [])
                  = Inr built
          \<and> setting_of built ''gradient-strategy'' = Some (Str ''central''))"
proof -
  note facts = optimizer_factory_options
    [of "''nlopt''" "[(''nlopt-optimizer'', Str ''l-bfgs''), (''nlopt-maxeval'', Integer 20)]"
        "[]" converged]
  from facts converged_finishes
  have "created (snd (main converged))
          = [(''nlopt'', [(''nlopt-optimizer'', Str ''l-bfgs''), (''nlopt-maxeval'', Integer 20)])]"
    by blast
  then have called: "(''nlopt'', [(''nlopt-optimizer'', Str ''l-bfgs''), (''nlopt-maxeval'', Integer 20)])
                       \<in> set (created (snd (main converged)))"
    by simp
  from facts
  have "\<forall>s. \<exists>built. fst (createOptimizer ''nlopt''
                      [(''gradient-strategy'', s),
                       (''nlopt-optimizer'', Str ''l-bfgs''), (''nlopt-maxeval'', Integer 20)] [])
                  = Inr built
          \<and> setting_of built ''gradient-strategy'' = Some s"
    by blast
  then have "\<exists>built. fst (createOptimizer ''nlopt''
                      [(''gradient-strategy'', Str ''central''),
                       (''nlopt-optimizer'', Str ''l-bfgs''), (''nlopt-maxeval'', Integer 20)] [])
                  = Inr built
          \<and> setting_of built ''gradient-strategy'' = Some (Str ''central'')"
    by (rule spec)
  with converged_finishes called show ?thesis
    by (simp only: simp_thms)
qed

subsection \<open>The Hamiltonian\<close>

text \<open>
  Claim C7: the Hamiltonian built in \<^verbatim>\<open>main\<close> is the weighted sum
  \<open>5.907 I - 2.1433 X\<^sub>0X\<^sub>1 - 2.1433 Y\<^sub>0Y\<^sub>1 + 0.21829 Z\<^sub>0 - 6.125 Z\<^sub>1\<close>, it acts on the
  qubits \<open>0\<close> and \<open>1\<close> only, and every solver object that \<^verbatim>\<open>main\<close> declares
  is given this same Hamiltonian; a run that terminates normally declares all three.
\<close>

theorem hamiltonian:
  "terms H =
     [(5.907, []),
      (- 2.1433, [(0, Pauli_X), (1, Pauli_X)]),
      (- 2.1433, [(0, Pauli_Y), (1, Pauli_Y)]),
      (0.21829, [(0, Pauli_Z)]),
      (- 6.125, [(1, Pauli_Z)])]
   \<and> qubits H = {0, 1}
   \<and> (\<forall>v \<in> set (constructed (snd (main run))). observable v = H)
   \<and> (fst (main run) = Inr () \<longrightarrow>
        constructed (snd (main run)) = [vqe, vqe_vec, vqe_openqasm]
        \<and> map observable (constructed (snd (main run))) = [H, H, H])"
proof (intro conjI impI)
  show "terms H =
     [(5.907, []),
      (- 2.1433, [(0, Pauli_X), (1, Pauli_X)]),
      (- 2.1433, [(0, Pauli_Y), (1, Pauli_Y)]),
      (0.21829, [(0, Pauli_Z)]),
      (- 6.125, [(1, Pauli_Z)])]"
    by (simp add: H_def X_def Y_def Z_def scalar_def plus_operator_def minus_operator_def
          times_operator_def term_times_def)
  then show "qubits H = {0, 1}"
    by (auto simp: qubits_def)
  have objects: "observable vqe = H" "observable vqe_vec = H" "observable vqe_openqasm = H"
    by (simp_all add: vqe_def vqe_vec_def vqe_openqasm_def new_VQE_def)
  show "\<forall>v \<in> set (constructed (snd (main run))). observable v = H"
    by (simp add: main_run energy_line_def constructed_append constructed_listing objects)
  assume "fst (main run) = Inr ()"
  then show "constructed (snd (main run)) = [vqe, vqe_vec, vqe_openqasm]"
    by (simp add: main_run energy_line_def constructed_append constructed_listing
          split: if_splits)
  then show "map observable (constructed (snd (main run))) = [H, H, H]"
    by (simp add: objects)
qed

theorem hamiltonian_witness:
  "fst (main converged) = Inr ()
   \<and> vqe_vec \<in> set (constructed (snd (main converged)))
   \<and> observable vqe_vec = H
   \<and> map observable (constructed (snd (main converged))) = [H, H, H]"
proof -
  note facts = hamiltonian [of converged]
  from facts converged_finishes
  have objects: "constructed (snd (main converged)) = [vqe, vqe_vec, vqe_openqasm]"
    and same: "map observable (constructed (snd (main converged))) = [H, H, H]"
    by blast+
  from objects have declared: "vqe_vec \<in> set (constructed (snd (main converged)))"
    by simp
  with facts have "observable vqe_vec = H"
    by blast
  with declared same converged_finishes show ?thesis
    by (simp only: simp_thms)
qed

subsection \<open>Synchronous execution\<close>

text \<open>
  Claim C8: no run of \<^verbatim>\<open>main\<close> contains a call of the asynchronous interface;
  the three solver runs of a run that terminates normally are the three calls of
  \<^verbatim>\<open>execute\<close>, each returning its result to the next statement.
\<close>

theorem every_run_is_synchronous:
  "(\<forall>e \<in> set (snd (main run)). \<not> is_asynchronous e)
   \<and> (fst (main run) = Inr () \<longrightarrow>
        filter is_execute (snd (main run))
          = [Execute vqe None (Double 0.0), Execute vqe_vec None (Vector [0.0]),
             Execute vqe_openqasm (Some optimizer) (Double 0.55)])"
proof (intro conjI impI ballI)
  fix e
  assume "e \<in> set (snd (main run))"
  then show "\<not> is_asynchronous e"
    by (auto simp: main_run energy_line_def split: if_splits dest: asynchronous_listing)
next
  assume "fst (main run) = Inr ()"
  then show "filter is_execute (snd (main run))
          = [Execute vqe None (Double 0.0), Execute vqe_vec None (Vector [0.0]),
             Execute vqe_openqasm (Some optimizer) (Double 0.55)]"
    by (simp add: main_run filter_execute_listing energy_line_def split: if_splits)
qed

theorem every_run_is_synchronous_witness:
  "fst (main converged) = Inr ()
   \<and> Execute vqe_vec None (Vector [0.0]) \<in> set (snd (main converged))
   \<and> \<not> is_asynchronous (Execute vqe_vec None (Vector [0.0]))
   \<and> length (filter is_execute (snd (main converged))) = 3"
proof -
  note finished = converged_finishes
  have called: "Execute vqe_vec None (Vector [0.0]) \<in> set (snd (main converged))"
    by (simp add: main_run converged_bindings in_tolerance_def)
  note facts = every_run_is_synchronous [of converged]
  from facts called have "\<not> is_asynchronous (Execute vqe_vec None (Vector [0.0]))"
    by blast
  moreover from facts finished have "length (filter is_execute (snd (main converged))) = 3"
    by (simp only: simp_thms list.size)
  ultimately show ?thesis
    using finished called by (simp only: simp_thms)
qed

subsection \<open>Vector subscripts\<close>

text \<open>
  Claim C9: \<^verbatim>\<open>ansatz_vec\<close> reads \<^verbatim>\<open>x[0]\<close> unchecked, so it is out of range
  exactly on the empty vector; the one vector that \<^verbatim>\<open>main\<close> passes to
  \<^verbatim>\<open>execute\<close> is \<^verbatim>\<open>{0.0}\<close>, on which the kernel has a body; and if every
  call of \<^verbatim>\<open>execute\<close> that a run makes returns a non-empty parameter vector,
  the run reads no vector out of range.
\<close>

theorem subscripts_in_bounds:
  "(ansatz_vec q x = Inl Out_of_range \<longleftrightarrow> x = [])
   \<and> (\<forall>v opt xs. Execute v opt (Vector xs) \<in> set (snd (main run))
         \<longrightarrow> xs = [0.0] \<and> (\<exists>body. ansatz_vec q xs = Inr body))
   \<and> ((\<forall>v opt x0. Execute v opt x0 \<in> set (snd (main run)) \<longrightarrow> snd (fst (run v opt x0)) \<noteq> [])
        \<longrightarrow> fst (main run) \<noteq> Inl Out_of_range)"
proof (intro conjI allI impI)
  show "ansatz_vec q x = Inl Out_of_range \<longleftrightarrow> x = []"
    by (simp add: ansatz_vec_def index_def)
next
  fix v opt xs
  assume "Execute v opt (Vector xs) \<in> set (snd (main run))"
  then show "xs = [0.0]"
    by (auto simp: main_run energy_line_def split: if_splits dest: listing_couts)
  then show "\<exists>body. ansatz_vec q xs = Inr body"
    by (simp add: ansatz_vec_def index_def)
next
  assume returned: "\<forall>v opt x0. Execute v opt x0 \<in> set (snd (main run))
                      \<longrightarrow> snd (fst (run v opt x0)) \<noteq> []"
  show "fst (main run) \<noteq> Inl Out_of_range"
  proof
    assume fault: "fst (main run) = Inl Out_of_range"
    then consider
        (first) "params run = []"
          "Execute vqe None (Double 0.0) \<in> set (snd (main run))"
      | (second) "params_vec run = []"
          "Execute vqe_vec None (Vector [0.0]) \<in> set (snd (main run))"
      | (third) "params_oq run = []"
          "Execute vqe_openqasm (Some optimizer) (Double 0.55) \<in> set (snd (main run))"
      by (simp add: main_run split: if_splits)
    then show False
    proof cases
      case first
      with returned show False by (simp add: params_def)
    next
      case second
      with returned show False by (simp add: params_vec_def)
    next
      case third
      with returned show False by (simp add: params_oq_def)
    qed
  qed
qed

theorem subscripts_in_bounds_witness:
  "ansatz_vec (qreg ''q'') [0.0] \<noteq> Inl Out_of_range
   \<and> Execute vqe_vec None (Vector [0.0]) \<in> set (snd (main converged))
   \<and> (\<exists>body. ansatz_vec (qreg ''q'') [0.0] = Inr body)
   \<and> snd (fst (converged vqe_vec None (Vector [0.0]))) \<noteq> []
   \<and> fst (main converged) \<noteq> Inl Out_of_range"
proof -
  note facts = subscripts_in_bounds [of "qreg ''q''" "[0.0]" converged]
  have called: "Execute vqe_vec None (Vector [0.0]) \<in> set (snd (main converged))"
    by (simp add: main_run converged_bindings in_tolerance_def)
  have returned: "\<forall>v opt x0. Execute v opt x0 \<in> set (snd (main converged))
                    \<longrightarrow> snd (fst (converged v opt x0)) \<noteq> []"
    by (simp add: converged_def)
  from facts have "(ansatz_vec (qreg ''q'') [0.0] = Inl Out_of_range) = ([0.0 :: double] = [])"
    by blast
  then have nonempty: "ansatz_vec (qreg ''q'') [0.0] \<noteq> Inl Out_of_range"
    by simp
  from facts called have body: "\<exists>body. ansatz_vec (qreg ''q'') [0.0] = Inr body"
    by blast
  from facts returned have safe: "fst (main converged) \<noteq> Inl Out_of_range"
    by blast
  from returned called have "snd (fst (converged vqe_vec None (Vector [0.0]))) \<noteq> []"
    by blast
  with nonempty called body safe show ?thesis
    by (simp only: simp_thms)
qed

subsection \<open>The unique parameters and energies\<close>

text \<open>
  Claim C5: after a call of \<^verbatim>\<open>execute\<close>, \<^verbatim>\<open>get_unique_parameters\<close> returns
  the parameter vectors observed in that optimization, each once, and
  \<^verbatim>\<open>get_unique_energies\<close> returns the observed pairs of an energy and a parameter
  vector, each once; the parameter vector of every such pair is among the vectors that
  \<^verbatim>\<open>get_unique_parameters\<close> returns.
\<close>

theorem unique_accessors:
  assumes "execute run v opt x0 t = (Inr (result, v'), t')"
  shows "set (get_unique_parameters v') = snd ` set (snd (run v opt x0))
         \<and> distinct (get_unique_parameters v')
         \<and> set (get_unique_energies v') = set (snd (run v opt x0))
         \<and> distinct (get_unique_energies v')
         \<and> (\<forall>ep \<in> set (get_unique_energies v'). snd ep \<in> set (get_unique_parameters v'))"
proof -
  from assms have kept: "observed v' = snd (run v opt x0)"
    by (auto simp: execute_def bind_def emit_def return_def split: prod.splits)
  then show ?thesis
    by (simp add: get_unique_parameters_def get_unique_energies_def)
qed

theorem unique_accessors_witness:
  "execute converged vqe_openqasm (Some optimizer) (Double 0.55) []
     = (Inr ((-1.74886, [0.594]),
             vqe_openqasm\<lparr>observed := [(-0.43629, [0]), (-1.74886, [0.594]), (-0.43629, [0])]\<rparr>),
        [Execute vqe_openqasm (Some optimizer) (Double 0.55)])
   \<and> set (get_unique_parameters
        (vqe_openqasm\<lparr>observed := [(-0.43629, [0]), (-1.74886, [0.594]), (-0.43629, [0])]\<rparr>))
       = {[0], [0.594]}
   \<and> (-0.43629, [0]) \<in> set (get_unique_energies
        (vqe_openqasm\<lparr>observed := [(-0.43629, [0]), (-1.74886, [0.594]), (-0.43629, [0])]\<rparr>))
   \<and> [0] \<in> set (get_unique_parameters
        (vqe_openqasm\<lparr>observed := [(-0.43629, [0]), (-1.74886, [0.594]), (-0.43629, [0])]\<rparr>))"
proof -
  let ?v = "vqe_openqasm\<lparr>observed := [(-0.43629, [0]), (-1.74886, [0.594]), (-0.43629, [0])]\<rparr>"
  have call: "execute converged vqe_openqasm (Some optimizer) (Double 0.55) []
     = (Inr ((-1.74886, [0.594]), ?v), [Execute vqe_openqasm (Some optimizer) (Double 0.55)])"
    by (simp add: execute_def bind_def emit_def return_def converged_def)
  note facts = unique_accessors [OF call]
  from facts
  have vectors: "set (get_unique_parameters ?v)
                   = snd ` set (snd (converged vqe_openqasm (Some optimizer) (Double 0.55)))"
    and pairs: "set (get_unique_energies ?v)
                   = set (snd (converged vqe_openqasm (Some optimizer) (Double 0.55)))"
    and among: "\<forall>ep \<in> set (get_unique_energies ?v). snd ep \<in> set (get_unique_parameters ?v)"
    by blast+
  from vectors have all: "set (get_unique_parameters ?v) = {[0], [0.594]}"
    by (auto simp: converged_def)
  from pairs have one: "(-0.43629, [0]) \<in> set (get_unique_energies ?v)"
    by (simp add: converged_def)
  with among have "snd (-0.43629 :: double, [0 :: double]) \<in> set (get_unique_parameters ?v)"
    by blast
  then have "[0] \<in> set (get_unique_parameters ?v)"
    by (simp only: snd_conv)
  with call all one show ?thesis
    by (simp only: simp_thms)
qed

subsection \<open>The two kernels with one angle\<close>

lemma circuit_ansatz:
  "circuit (ansatz q x)
     = Some [Gate_X (qubit_at q 0), Gate_Ry (qubit_at q 1) x,
             Gate_CNOT (qubit_at q 1) (qubit_at q 0)]"
  by (simp add: ansatz_def xasm_gate_def)

lemma circuit_mixed:
  "circuit (xasm_open_qasm_mixed_ansatz q xx)
     = Some [Gate_X (qubit_at q 0), Gate_Ry (qubit_at q 1) xx,
             Gate_CNOT (qubit_at q 1) (qubit_at q 0)]"
  by (simp add: xasm_open_qasm_mixed_ansatz_def xasm_gate_def openqasm_gate_def)

text \<open>
  Claim C10: for every register and every angle, \<^verbatim>\<open>ansatz\<close> and
  \<^verbatim>\<open>xasm_open_qasm_mixed_ansatz\<close> give the same circuit: X on \<^verbatim>\<open>q[0]\<close>, then
  Ry on \<^verbatim>\<open>q[1]\<close> by the angle, then a controlled NOT with control \<^verbatim>\<open>q[1]\<close>
  and target \<^verbatim>\<open>q[0]\<close>.
\<close>

theorem mixed_kernel_same_circuit:
  "circuit (ansatz q x)
     = Some [Gate_X (qubit_at q 0), Gate_Ry (qubit_at q 1) x,
             Gate_CNOT (qubit_at q 1) (qubit_at q 0)]
   \<and> circuit (xasm_open_qasm_mixed_ansatz q x) = circuit (ansatz q x)
   \<and> control (Gate_CNOT (qubit_at q 1) (qubit_at q 0)) = (q, 1)
   \<and> target (Gate_CNOT (qubit_at q 1) (qubit_at q 0)) = (q, 0)"
proof (intro conjI)
  show "circuit (ansatz q x)
     = Some [Gate_X (qubit_at q 0), Gate_Ry (qubit_at q 1) x,
             Gate_CNOT (qubit_at q 1) (qubit_at q 0)]"
    by (rule circuit_ansatz)
  then show "circuit (xasm_open_qasm_mixed_ansatz q x) = circuit (ansatz q x)"
    by (simp add: circuit_mixed)
  show "control (Gate_CNOT (qubit_at q 1) (qubit_at q 0)) = (q, 1)"
    and "target (Gate_CNOT (qubit_at q 1) (qubit_at q 0)) = (q, 0)"
    by (simp_all add: qubit_at_def)
qed

theorem mixed_kernel_same_circuit_witness:
  "circuit (xasm_open_qasm_mixed_ansatz (qreg ''q'') 0.55)
     = Some [Gate_X (qreg ''q'', 0), Gate_Ry (qreg ''q'', 1) 0.55,
             Gate_CNOT (qreg ''q'', 1) (qreg ''q'', 0)]"
  using mixed_kernel_same_circuit [of "qreg ''q''" "0.55"]
  by (simp only: qubit_at_def)

subsection \<open>Further properties of the runs\<close>

text \<open>
  In a run that terminates normally the energies of the first two solvers are within
  the tolerance.
\<close>

theorem finished_run_checked_energies:
  assumes "fst (main run) = Inr ()"
  shows "in_tolerance (energy run) \<and> in_tolerance (energy_vec run)"
  using assms by (simp add: main_run split: if_splits)

theorem finished_run_checked_energies_witness:
  "fst (main third_off) = Inr ()
   \<and> in_tolerance (energy third_off) \<and> in_tolerance (energy_vec third_off)"
proof -
  have finished: "fst (main third_off) = Inr ()"
    by (simp add: main_run params_def energy_def params_vec_def energy_vec_def params_oq_def
          in_tolerance_def third_off_def)
  from finished finished_run_checked_energies [OF finished] show ?thesis
    by (simp only: simp_thms)
qed

text \<open>
  A run is aborted by the first or by the second check: the third repeats the condition
  of the second and cannot fail.
\<close>

theorem third_check_never_fails:
  assumes "fst (main run) = Inl Aborted"
  shows "filter is_expect (snd (main run)) = [Expect False]
         \<or> filter is_expect (snd (main run)) = [Expect True, Expect False]"
  using assms by (simp add: main_run energy_line_def split: if_splits)

theorem third_check_never_fails_witness:
  "fst (main stuck) = Inl Aborted \<and> filter is_expect (snd (main stuck)) = [Expect False]"
proof -
  have aborted: "fst (main stuck) = Inl Aborted"
    by (simp add: main_run params_def energy_def stuck_def in_tolerance_def)
  have "filter is_expect (snd (main stuck)) \<noteq> [Expect True, Expect False]"
    by (simp add: main_run params_def energy_def stuck_def in_tolerance_def energy_line_def)
  with aborted third_check_never_fails [OF aborted] show ?thesis
    by blast
qed

end
